theory Spec2Isabelle
  imports Main
begin

section \<open>JavaScript values of a request body\<close>

text \<open>
  The handlers of \<^verbatim>\<open>src/api/endpoint/api/publish.js\<close> work on dynamically typed
  values: the parsed JSON body and the manifest made from it. A value is a primitive, a
  plain object or an array. An object and an array both carry the list of their own
  enumerable properties, in the order \<^verbatim>\<open>Object.keys\<close> lists them; the keys of a list
  are pairwise distinct. A JSON array \<^verbatim>\<open>[a, b]\<close> is \<open>JArr [(''0'', a), (''1'', b)]\<close>:
  its indices are its keys, as they are for \<^verbatim>\<open>Object.keys\<close>, they come first and in
  order, and its length is their number. A number is kept as the string that JavaScript
  prints for it (\<^verbatim>\<open>'42'\<close>, \<^verbatim>\<open>'0.5'\<close>, \<^verbatim>\<open>'1e+21'\<close>): the handlers pass numbers on and
  print them, and do nothing else with them. The values are those of a parsed JSON text
  and of what the handlers make of them: no property holds a function.
\<close>

datatype jsval =
    JUndefined
  | JNull
  | JBool bool
  | JNum string
  | JStr string
  | JObj "(string \<times> jsval) list"
  | JArr "(string \<times> jsval) list"

text \<open>The decimal numeral of a natural number: the name of an array index.\<close>

function decimal :: "nat \<Rightarrow> string" where
  "decimal n =
     (if n < 10 then [''0123456789'' ! n]
      else decimal (n div 10) @ [''0123456789'' ! (n mod 10)])"
  by pat_completeness auto
termination
  by (relation "measure (\<lambda>n. n)") auto

declare decimal.simps [simp del]

text \<open>\<^verbatim>\<open>_.isNil(v)\<close>: \<^verbatim>\<open>null\<close> or \<^verbatim>\<open>undefined\<close>.\<close>

fun isNil :: "jsval \<Rightarrow> bool" where
  "isNil JUndefined = True"
| "isNil JNull = True"
| "isNil _ = False"

text \<open>\<^verbatim>\<open>typeof v\<close>. The type of \<^verbatim>\<open>null\<close> and of an array is \<^verbatim>\<open>'object'\<close>.\<close>

fun js_typeof :: "jsval \<Rightarrow> string" where
  "js_typeof JUndefined = ''undefined''"
| "js_typeof JNull = ''object''"
| "js_typeof (JBool _) = ''boolean''"
| "js_typeof (JNum _) = ''number''"
| "js_typeof (JStr _) = ''string''"
| "js_typeof (JObj _) = ''object''"
| "js_typeof (JArr _) = ''object''"

text \<open>
  The own enumerable properties of a value that is not \<^verbatim>\<open>null\<close> or \<^verbatim>\<open>undefined\<close>. A
  string has its characters under their indices; a boolean and a number have none.
\<close>

fun props :: "jsval \<Rightarrow> (string \<times> jsval) list" where
  "props (JObj ps) = ps"
| "props (JArr ps) = ps"
| "props (JStr s) = zip (map decimal [0..<length s]) (map (\<lambda>c. JStr [c]) s)"
| "props _ = []"

text \<open>
  \<^verbatim>\<open>Object.keys(v)\<close>. It throws a TypeError on \<^verbatim>\<open>null\<close> and \<^verbatim>\<open>undefined\<close>: the
  result \<open>None\<close>.
\<close>

definition object_keys :: "jsval \<Rightarrow> string list option" where
  "object_keys v = (if isNil v then None else Some (map fst (props v)))"

text \<open>
  The property read \<^verbatim>\<open>v[k]\<close> (\<^verbatim>\<open>v.k\<close>) on a value that is not \<^verbatim>\<open>null\<close> or
  \<^verbatim>\<open>undefined\<close>, for the names the handlers read: own properties, none of them
  inherited from a prototype. A missing property reads \<^verbatim>\<open>undefined\<close>. The caller
  tests \<open>isNil v\<close> first wherever the source can read a property of \<^verbatim>\<open>null\<close>.
\<close>

definition get_prop :: "jsval \<Rightarrow> string \<Rightarrow> jsval" where
  "get_prop v k = (case map_of (props v) k of Some x \<Rightarrow> x | None \<Rightarrow> JUndefined)"

text \<open>
  The assignment \<^verbatim>\<open>v[k] = x\<close>. In strict mode, which an ES module is in, it
  throws a TypeError unless \<^verbatim>\<open>v\<close> is an object or an array: \<open>can_assign\<close> says
  whether it goes through. \<open>put_prop\<close> is the value after it, for a key that is
  present (its place is kept) or that is no array index (a new key is listed last).
\<close>

fun can_assign :: "jsval \<Rightarrow> bool" where
  "can_assign (JObj _) = True"
| "can_assign (JArr _) = True"
| "can_assign _ = False"

fun upd :: "(string \<times> jsval) list \<Rightarrow> string \<Rightarrow> jsval \<Rightarrow> (string \<times> jsval) list" where
  "upd [] k x = [(k, x)]"
| "upd ((k', y) # ps) k x = (if k' = k then (k, x) # ps else (k', y) # upd ps k x)"

fun put_prop :: "jsval \<Rightarrow> string \<Rightarrow> jsval \<Rightarrow> jsval" where
  "put_prop (JObj ps) k x = JObj (upd ps k x)"
| "put_prop (JArr ps) k x = JArr (upd ps k x)"
| "put_prop v k x = v"

text \<open>
  \<^verbatim>\<open>String(v)\<close>, the result \<open>None\<close> when it throws a TypeError. A primitive has a
  string. An object or an array is converted by its \<^verbatim>\<open>toString\<close>, then by its
  \<^verbatim>\<open>valueOf\<close>, whichever is a function first and returns a primitive. An own
  \<^verbatim>\<open>toString\<close> key holds no function and hides the inherited one, and \<^verbatim>\<open>valueOf\<close>,
  own or inherited, gives no primitive: the conversion throws. With no such key a plain
  object prints as \<^verbatim>\<open>[object Object]\<close>. An array calls its \<^verbatim>\<open>join\<close>, which joins the
  strings of its elements with commas, the empty string for \<^verbatim>\<open>null\<close> and
  \<^verbatim>\<open>undefined\<close>, and throws when the conversion of an element does; an own \<^verbatim>\<open>join\<close>
  key holds no function, and the array prints as \<^verbatim>\<open>[object Array]\<close>.
\<close>

fun is_index :: "string \<Rightarrow> bool" where
  "is_index [] = False"
| "is_index (c # cs) =
     (list_all (\<lambda>d. List.member ''0123456789'' d) (c # cs) \<and> (c \<noteq> CHR ''0'' \<or> cs = []))"

fun join :: "string list \<Rightarrow> string" where
  "join [] = []"
| "join [s] = s"
| "join (s # t # ss) = s @ '','' @ join (t # ss)"

fun all_some :: "'a option list \<Rightarrow> 'a list option" where
  "all_some [] = Some []"
| "all_some (None # xs) = None"
| "all_some (Some x # xs) = (case all_some xs of None \<Rightarrow> None | Some ys \<Rightarrow> Some (x # ys))"

fun js_String :: "jsval \<Rightarrow> string option" where
  "js_String JUndefined = Some ''undefined''"
| "js_String JNull = Some ''null''"
| "js_String (JBool b) = Some (if b then ''true'' else ''false'')"
| "js_String (JNum printed) = Some printed"
| "js_String (JStr s) = Some s"
| "js_String (JObj ps) =
     (if ''toString'' \<in> set (map fst ps) then None else Some ''[object Object]'')"
| "js_String (JArr ps) =
     (if ''toString'' \<in> set (map fst ps) then None
      else if ''join'' \<in> set (map fst ps) then Some ''[object Array]''
      else
        (case all_some (map (\<lambda>p. if isNil (snd p) then Some [] else js_String (snd p))
                (filter (\<lambda>p. is_index (fst p)) ps)) of
          None \<Rightarrow> None
        | Some ss \<Rightarrow> Some (join ss)))"

text \<open>
  \<^verbatim>\<open>Path.basename(p)\<close> (POSIX): the last segment of the path, trailing slashes
  dropped.
\<close>

definition basename :: "string \<Rightarrow> string" where
  "basename p =
     rev (takeWhile (\<lambda>c. c \<noteq> CHR ''/'') (dropWhile (\<lambda>c. c = CHR ''/'') (rev p)))"

section \<open>Errors, responses and the storage backend\<close>

text \<open>
  An error object carries an optional HTTP status, a number, and a message. A callback
  of the backend receives an error or nothing: \<open>Some e\<close> or \<open>None\<close>.
\<close>

record error =
  status :: "int option"
  message :: string

text \<open>
  Modelled from the spec: \<^verbatim>\<open>ErrorCode.get400\<close> of \<^verbatim>\<open>lib/utils\<close> is not under src/.
  It makes the error of HTTP status 400, the status of \<open>UnsupportedRegistryCall\<close>.
\<close>

definition get400 :: "string \<Rightarrow> error" where
  "get400 msg = \<lparr>status = Some 400, message = msg\<rparr>"

text \<open>
  Modelled from the spec: \<^verbatim>\<open>ErrorCode.get404\<close> of \<^verbatim>\<open>lib/utils\<close> is not under src/.
  It makes the error of HTTP status 404, as which \<open>NotImplemented\<close> is reported.
\<close>

definition get404 :: "string \<Rightarrow> error" where
  "get404 msg = \<lparr>status = Some 404, message = msg\<rparr>"

text \<open>
  Modelled from the spec: \<^verbatim>\<open>ErrorCode.get422\<close> of \<^verbatim>\<open>lib/utils\<close> is not under src/.
  It makes the error of HTTP status 422, the status of \<open>InvalidManifest\<close>.
\<close>

definition get422 :: "string \<Rightarrow> error" where
  "get422 msg = \<lparr>status = Some 422, message = msg\<rparr>"

text \<open>
  Modelled from the spec: \<^verbatim>\<open>isObject\<close> of \<^verbatim>\<open>lib/utils\<close> is not under src/. It holds
  of a mapping: a plain object, not an array, not \<^verbatim>\<open>null\<close>.
\<close>

fun isObject :: "jsval \<Rightarrow> bool" where
  "isObject (JObj _) = True"
| "isObject _ = False"

text \<open>
  Modelled from the spec: the constant \<^verbatim>\<open>DIST_TAGS\<close> of \<^verbatim>\<open>lib/utils\<close> is not under
  src/. It names the manifest's mapping of distribution tags.
\<close>

definition DIST_TAGS :: string where
  "DIST_TAGS = ''dist-tags''"

type_synonym buffer = "nat list"

text \<open>
  What a handler does to its collaborators, in the order it does it. A tarball write is
  three steps on the stream that \<^verbatim>\<open>storage.addTarball\<close> returns: the stream is
  acquired, \<^verbatim>\<open>end\<close> writes the bytes, \<^verbatim>\<open>done\<close> finalizes it.
\<close>

datatype call =
    AddPackage string jsval
  | ChangePackage string jsval "string option"
  | AddTarball string string
  | StreamEnd buffer
  | StreamDone
  | AddVersion string string jsval jsval
  | MergeTags string jsval
  | Notify jsval
  | RemovePackage string
  | RemoveTarball string string string

text \<open>
  How a handler ends: \<^verbatim>\<open>next(err)\<close>, or \<^verbatim>\<open>res.status(n); next(body)\<close>, or an
  uncaught TypeError.
\<close>

datatype outcome =
    Next_error error
  | Reply nat jsval
  | TypeError_thrown

text \<open>
  The storage backend is a collaborator: each operation answers its callback with an
  error or with nothing, as a function of the arguments of the call. A handler calls each
  operation at most once, so nothing is lost by leaving the backend's state out. The
  answer of \<open>addTarball\<close> is the event of the write stream once the bytes were written
  and the stream finalized: \<open>Some e\<close> for \<^verbatim>\<open>'error'\<close>, \<open>None\<close> for \<^verbatim>\<open>'success'\<close>.
\<close>

record storage =
  addPackage :: "string \<Rightarrow> jsval \<Rightarrow> error option"
  change_package :: "string \<Rightarrow> jsval \<Rightarrow> string option \<Rightarrow> error option"
  addTarball :: "string \<Rightarrow> string \<Rightarrow> buffer \<Rightarrow> error option"
  addVersion :: "string \<Rightarrow> string \<Rightarrow> jsval \<Rightarrow> jsval \<Rightarrow> error option"
  mergeTags :: "string \<Rightarrow> jsval \<Rightarrow> error option"
  remove_package :: "string \<Rightarrow> error option"
  remove_tarball :: "string \<Rightarrow> string \<Rightarrow> string \<Rightarrow> error option"

text \<open>
  The other parts the publish handler uses and src/ does not hold, as parameters:
  \<^verbatim>\<open>validate_metadata(body, name)\<close> of \<^verbatim>\<open>lib/utils\<close>, which returns the manifest or
  throws (\<open>None\<close>), and Node's \<^verbatim>\<open>new Buffer(v, 'base64')\<close>, which returns the decoded
  bytes or throws (\<open>None\<close>).
\<close>

record env =
  backend :: storage
  validate_metadata :: "jsval \<Rightarrow> string \<Rightarrow> jsval option"
  new_Buffer :: "jsval \<Rightarrow> buffer option"

text \<open>
  The parameters of the route \<^verbatim>\<open>/:package/:_rev?/:revision?\<close> and the parsed body.
\<close>

record request =
  package :: string
  rev_marker :: "string option"
  revision :: "string option"
  body :: jsval

section \<open>Publishing a package\<close>

text \<open>A callback that was called with a value, or an exception thrown before.\<close>

datatype 'a answer = Called 'a | Raised

text \<open>
  \<^verbatim>\<open>create_tarball(filename, data, cb)\<close>: the calls made, and the answer of the stream.
  \<^verbatim>\<open>data.data\<close> throws when \<^verbatim>\<open>data\<close> is \<^verbatim>\<open>null\<close>.
\<close>

definition create_tarball ::
  "env \<Rightarrow> string \<Rightarrow> string \<Rightarrow> jsval \<Rightarrow> call list \<times> error option answer" where
  "create_tarball ev name filename data =
     (if isNil data then ([AddTarball name filename], Raised)
      else case new_Buffer ev (get_prop data ''data'') of
          None \<Rightarrow> ([AddTarball name filename], Raised)
        | Some buf \<Rightarrow>
            ([AddTarball name filename, StreamEnd buf, StreamDone],
             Called (addTarball (backend ev) name filename buf)))"

definition create_version :: "env \<Rightarrow> string \<Rightarrow> string \<Rightarrow> jsval \<Rightarrow> call \<times> error option" where
  "create_version ev name version data =
     (AddVersion name version data JNull, addVersion (backend ev) name version data JNull)"

definition add_tags :: "env \<Rightarrow> string \<Rightarrow> jsval \<Rightarrow> call \<times> error option" where
  "add_tags ev name tags = (MergeTags name tags, mergeTags (backend ev) name tags)"

text \<open>The body of a success response: \<^verbatim>\<open>{ok: ok_message, success: true}\<close>.\<close>

definition ok_success :: "string \<Rightarrow> jsval" where
  "ok_success ok_message = JObj [(''ok'', JStr ok_message), (''success'', JBool True)]"

text \<open>
  The readme the handler stores in the version:
  \<^verbatim>\<open>_.isNil(metadata.readme) === false ? String(metadata.readme) : ''\<close>. It is
  \<open>None\<close> when \<^verbatim>\<open>String\<close> throws.
\<close>

definition readme_of :: "jsval \<Rightarrow> string option" where
  "readme_of metadata =
     (let r = get_prop metadata ''readme'' in if \<not> isNil r then js_String r else Some [])"

text \<open>
  The one version after the assignment of line 83,
  \<^verbatim>\<open>metadata.versions[t2].readme = ...\<close>, of the readme \<open>s\<close>, and the manifest after
  it: the assignment is in place, so the manifest passed to \<^verbatim>\<open>notify\<close> holds the
  readme too.
\<close>

definition version_key :: "jsval \<Rightarrow> string" where
  "version_key metadata = hd (map fst (props (get_prop metadata ''versions'')))"

definition version_with_readme :: "jsval \<Rightarrow> string \<Rightarrow> jsval" where
  "version_with_readme metadata s =
     put_prop (get_prop (get_prop metadata ''versions'') (version_key metadata))
       ''readme'' (JStr s)"

definition manifest_with_readme :: "jsval \<Rightarrow> string \<Rightarrow> jsval" where
  "manifest_with_readme metadata s =
     put_prop metadata ''versions''
       (put_prop (get_prop metadata ''versions'') (version_key metadata)
          (version_with_readme metadata s))"

text \<open>
  The callback of \<^verbatim>\<open>create_tarball\<close> on success (lines 82 to 96): the readme is
  stored in the one version, the version is committed, the tags are merged, the
  notification is sent and the response made. Line 83 throws a TypeError, before any
  further call, when the version is no object or array, which the assignment needs, and
  when \<^verbatim>\<open>String(metadata.readme)\<close> throws.
\<close>

definition after_tarball :: "env \<Rightarrow> string \<Rightarrow> jsval \<Rightarrow> string \<Rightarrow> call list \<times> outcome" where
  "after_tarball ev name metadata ok_message =
     (let t2 = version_key metadata in
      if \<not> can_assign (get_prop (get_prop metadata ''versions'') t2)
      then ([], TypeError_thrown)
      else
        (case readme_of metadata of
          None \<Rightarrow> ([], TypeError_thrown)
        | Some s \<Rightarrow>
            let metadata' = manifest_with_readme metadata s in
            (case create_version ev name t2 (version_with_readme metadata s) of
              (c1, Some err) \<Rightarrow> ([c1], Next_error err)
            | (c1, None) \<Rightarrow>
                (case add_tags ev name (get_prop metadata' DIST_TAGS) of
                  (c2, Some err) \<Rightarrow> ([c1, c2], Next_error err)
                | (c2, None) \<Rightarrow>
                    ([c1, c2, Notify metadata'], Reply 201 (ok_success ok_message))))))"

text \<open>
  Lines 75 to 98: the tarball of the one attachment is written under the base name of
  its key, and the steps above follow its success.
\<close>

definition attach :: "env \<Rightarrow> string \<Rightarrow> jsval \<Rightarrow> string \<Rightarrow> call list \<times> outcome" where
  "attach ev name metadata ok_message =
     (let attachments = get_prop metadata ''_attachments'';
          t1 = hd (map fst (props attachments))
      in case create_tarball ev name (basename t1) (get_prop attachments t1) of
          (cs, Raised) \<Rightarrow> (cs, TypeError_thrown)
        | (cs, Called (Some err)) \<Rightarrow> (cs, Next_error err)
        | (cs, Called None) \<Rightarrow>
            (case after_tarball ev name metadata ok_message of
              (ds, out) \<Rightarrow> (cs @ ds, out)))"

text \<open>
  \<^verbatim>\<open>after_change(err, ok_message)\<close>, with the manifest it closes over: the calls made
  after the dispatch, and the outcome. Reading \<^verbatim>\<open>metadata._attachments\<close> throws when
  the manifest is \<^verbatim>\<open>null\<close>; \<^verbatim>\<open>Object.keys(metadata.versions)\<close>, the last test of
  line 65, throws when the versions are \<^verbatim>\<open>null\<close>, whose type is \<^verbatim>\<open>'object'\<close>.
\<close>

definition after_change ::
  "env \<Rightarrow> string \<Rightarrow> jsval \<Rightarrow> error option \<Rightarrow> string \<Rightarrow> call list \<times> outcome" where
  "after_change ev name metadata err ok_message =
     (if isNil metadata then ([], TypeError_thrown)
      else
        let attachments = get_prop metadata ''_attachments'';
            versions = get_prop metadata ''versions''
        in
        if isNil attachments then
          (case err of
            Some e \<Rightarrow> ([], Next_error e)
          | None \<Rightarrow> ([], Reply 201 (ok_success ok_message)))
        else if js_typeof attachments \<noteq> ''object''
               \<or> length (map fst (props attachments)) \<noteq> 1
               \<or> js_typeof versions \<noteq> ''object''
        then ([], Next_error (get400 ''unsupported registry call''))
        else
          (case object_keys versions of
            None \<Rightarrow> ([], TypeError_thrown)
          | Some vks \<Rightarrow>
              if length vks \<noteq> 1
              then ([], Next_error (get400 ''unsupported registry call''))
              else
                (case err of
                  Some e \<Rightarrow>
                    if status e \<noteq> Some 409 then ([], Next_error e)
                    else attach ev name metadata ok_message
                | None \<Rightarrow> attach ev name metadata ok_message)))"

text \<open>
  The truth value of \<^verbatim>\<open>req.params._rev\<close>: the parameter is there and not empty.
\<close>

fun supplied :: "string option \<Rightarrow> bool" where
  "supplied None = False"
| "supplied (Some s) = (s \<noteq> [])"

text \<open>
  The handler of \<^verbatim>\<open>PUT /:package/:_rev?/:revision?\<close> (lines 101 to 120): all the
  calls it makes, in order, and its outcome.
\<close>

definition publish :: "env \<Rightarrow> request \<Rightarrow> call list \<times> outcome" where
  "publish ev req =
     (let name = package req in
      case object_keys (body req) of
        None \<Rightarrow> ([], TypeError_thrown)
      | Some ks \<Rightarrow>
          if length ks = 1 \<and> isObject (get_prop (body req) ''users'')
          then ([], Next_error (get404 ''npm star|unstar calls are not implemented''))
          else
            (case validate_metadata ev (body req) name of
              None \<Rightarrow> ([], Next_error (get422 ''bad incoming package data''))
            | Some metadata \<Rightarrow>
                if supplied (rev_marker req) then
                  (case after_change ev name metadata
                          (change_package (backend ev) name metadata (revision req))
                          ''package changed'' of
                    (cs, out) \<Rightarrow> (ChangePackage name metadata (revision req) # cs, out))
                else
                  (case after_change ev name metadata
                          (addPackage (backend ev) name metadata)
                          ''created new package'' of
                    (cs, out) \<Rightarrow> (AddPackage name metadata # cs, out))))"

section \<open>Removing a package and a tarball\<close>

text \<open>
  The handlers of \<^verbatim>\<open>DELETE /:package/-rev/*\<close> and of
  \<^verbatim>\<open>DELETE /:package/-/:filename/-rev/:revision\<close> (lines 124 to 144).
\<close>

definition delete_package :: "storage \<Rightarrow> string \<Rightarrow> call list \<times> outcome" where
  "delete_package st name =
     ([RemovePackage name],
      case remove_package st name of
        Some err \<Rightarrow> Next_error err
      | None \<Rightarrow> Reply 201 (JObj [(''ok'', JStr ''package removed'')]))"

definition delete_tarball :: "storage \<Rightarrow> string \<Rightarrow> string \<Rightarrow> string \<Rightarrow> call list \<times> outcome" where
  "delete_tarball st name filename revn =
     ([RemoveTarball name filename revn],
      case remove_tarball st name filename revn of
        Some err \<Rightarrow> Next_error err
      | None \<Rightarrow> Reply 201 (JObj [(''ok'', JStr ''tarball removed'')]))"

section \<open>Uploading a tarball\<close>

text \<open>
  The handler of \<^verbatim>\<open>PUT /:package/-/:filename/*\<close> (lines 147 to 174) acquires a write
  stream, pipes the request into it and then only reacts to events: \<^verbatim>\<open>'end'\<close> and
  \<^verbatim>\<open>'close'\<close> of the request, \<^verbatim>\<open>'error'\<close> and \<^verbatim>\<open>'success'\<close> of the stream, in
  whatever order they come. Its state is the flag \<^verbatim>\<open>complete\<close>. A reaction calls the
  stream (\<^verbatim>\<open>done\<close>, \<^verbatim>\<open>abort\<close>) or answers the client (\<^verbatim>\<open>res.report_error\<close>, or
  \<^verbatim>\<open>res.status\<close> and \<^verbatim>\<open>next\<close>).
\<close>

datatype upload_event = Req_end | Req_close | Stream_error error | Stream_success

datatype upload_action =
    Stream_open string string
  | Request_piped
  | Stream_done
  | Stream_abort
  | Report_error error
  | Respond nat jsval

definition uploaded :: upload_action where
  "uploaded = Respond 201 (JObj [(''ok'', JStr ''tarball uploaded successfully'')])"

fun on_event :: "bool \<Rightarrow> upload_event \<Rightarrow> bool \<times> upload_action list" where
  "on_event complete Req_end = (True, [Stream_done])"
| "on_event complete Req_close = (complete, if \<not> complete then [Stream_abort] else [])"
| "on_event complete (Stream_error err) = (complete, [Report_error err])"
| "on_event complete Stream_success = (complete, [uploaded])"

fun react :: "bool \<Rightarrow> upload_event list \<Rightarrow> upload_action list" where
  "react complete [] = []"
| "react complete (e # es) =
     (case on_event complete e of (complete', as) \<Rightarrow> as @ react complete' es)"

text \<open>
  The handler acquires the stream for the package and the file name, pipes the request
  into it and starts with \<^verbatim>\<open>complete = false\<close>.
\<close>

definition upload :: "string \<Rightarrow> string \<Rightarrow> upload_event list \<Rightarrow> upload_action list" where
  "upload name filename es = Stream_open name filename # Request_piped # react False es"

section \<open>Requests, manifests and sample collaborators\<close>

text \<open>
  A star or unstar request, as line 101 tests it: the body has one key and its
  \<^verbatim>\<open>users\<close> is an object.
\<close>

definition star_request :: "jsval \<Rightarrow> bool" where
  "star_request b = (length (props b) = 1 \<and> isObject (get_prop b ''users''))"

text \<open>
  The request gets past line 110 with the manifest \<open>m\<close>: the body is not \<^verbatim>\<open>null\<close>,
  on which \<^verbatim>\<open>Object.keys\<close> throws, it is no star request, and \<^verbatim>\<open>validate_metadata\<close>
  returns \<open>m\<close>.
\<close>

definition validated :: "env \<Rightarrow> request \<Rightarrow> jsval \<Rightarrow> bool" where
  "validated ev req m =
     (\<not> isNil (body req) \<and> \<not> star_request (body req)
      \<and> validate_metadata ev (body req) (package req) = Some m)"

text \<open>The dispatch of lines 112 to 120: the call it makes and the answer it gets.\<close>

definition dispatch_call :: "request \<Rightarrow> jsval \<Rightarrow> call" where
  "dispatch_call req m =
     (if supplied (rev_marker req) then ChangePackage (package req) m (revision req)
      else AddPackage (package req) m)"

definition dispatch_answer :: "env \<Rightarrow> request \<Rightarrow> jsval \<Rightarrow> error option" where
  "dispatch_answer ev req m =
     (if supplied (rev_marker req)
      then change_package (backend ev) (package req) m (revision req)
      else addPackage (backend ev) (package req) m)"

definition dispatch_message :: "request \<Rightarrow> string" where
  "dispatch_message req =
     (if supplied (rev_marker req) then ''package changed'' else ''created new package'')"

text \<open>
  The test of lines 62 to 65 on a manifest whose versions are not \<^verbatim>\<open>null\<close>: the
  attachments, and the versions, are of type \<^verbatim>\<open>'object'\<close> and have one key.
\<close>

definition one_entry :: "jsval \<Rightarrow> bool" where
  "one_entry v = (js_typeof v = ''object'' \<and> length (props v) = 1)"

text \<open>
  Modelled from the spec: the normalization done by \<^verbatim>\<open>validate_metadata\<close> of
  \<^verbatim>\<open>lib/utils\<close> is not under src/. The versions and the distribution tags of a
  manifest are mappings: a field that is none is made the empty mapping.
\<close>

definition mapping_or_empty :: "jsval \<Rightarrow> string \<Rightarrow> jsval" where
  "mapping_or_empty b k = (if isObject (get_prop b k) then b else put_prop b k (JObj []))"

text \<open>
  Modelled from the spec: \<^verbatim>\<open>validate_metadata\<close> of \<^verbatim>\<open>lib/utils\<close> is not under src/.
  It validates and normalizes the manifest against the declared package name: the body
  is a mapping whose name is the declared one, and it is returned normalized; any other
  body is rejected. The handler takes the validation as a parameter; this one stands for
  it in the examples.
\<close>

definition validate_manifest :: "jsval \<Rightarrow> string \<Rightarrow> jsval option" where
  "validate_manifest b name =
     (if isObject b \<and> get_prop b ''name'' = JStr name
      then Some (mapping_or_empty (mapping_or_empty b DIST_TAGS) ''versions'')
      else None)"

text \<open>
  Sample collaborators: a backend that accepts every call, one that answers the dispatch
  and the removals with a given error and accepts the rest, and a Buffer constructor
  that knows the base64 string \<^verbatim>\<open>AAEC\<close> of the bytes 0, 1, 2.
\<close>

definition accepting :: storage where
  "accepting =
     \<lparr>addPackage = (\<lambda>n m. None), change_package = (\<lambda>n m r. None),
      addTarball = (\<lambda>n f b. None), addVersion = (\<lambda>n v d t. None),
      mergeTags = (\<lambda>n t. None), remove_package = (\<lambda>n. None),
      remove_tarball = (\<lambda>n f r. None)\<rparr>"

definition refusing :: "error \<Rightarrow> storage" where
  "refusing e =
     accepting\<lparr>addPackage := (\<lambda>n m. Some e), change_package := (\<lambda>n m r. Some e),
       remove_package := (\<lambda>n. Some e), remove_tarball := (\<lambda>n f r. Some e)\<rparr>"

definition sample_Buffer :: "jsval \<Rightarrow> buffer option" where
  "sample_Buffer v = (if v = JStr ''AAEC'' then Some [0, 1, 2] else None)"

definition sample_env :: "storage \<Rightarrow> env" where
  "sample_env st =
     \<lparr>backend = st, validate_metadata = validate_manifest, new_Buffer = sample_Buffer\<rparr>"

definition conflict :: error where
  "conflict = \<lparr>status = Some 409, message = ''this package is already present''\<rparr>"

definition internal :: error where
  "internal = \<lparr>status = Some 500, message = ''internal server error''\<rparr>"

text \<open>
  A manifest of the package \<^verbatim>\<open>pkg\<close> with the given attachments, and the request that
  publishes it with no revision.
\<close>

definition manifest :: "jsval \<Rightarrow> jsval" where
  "manifest attachments =
     JObj [(''name'', JStr ''pkg''),
           (''versions'', JObj [(''1.0.0'', JObj [(''name'', JStr ''pkg'')])]),
           (''dist-tags'', JObj [(''latest'', JStr ''1.0.0'')]),
           (''readme'', JStr ''hello''),
           (''_attachments'', attachments)]"

definition tarball :: jsval where
  "tarball = JObj [(''data'', JStr ''AAEC'')]"

definition put_request :: "jsval \<Rightarrow> request" where
  "put_request b = \<lparr>package = ''pkg'', rev_marker = None, revision = None, body = b\<rparr>"

section \<open>Properties of the values\<close>


lemma map_of_upd_other: "k' \<noteq> k \<Longrightarrow> map_of (upd ps k x) k' = map_of ps k'"
  by (induction ps) auto

lemma get_prop_put_other: "k' \<noteq> k \<Longrightarrow> get_prop (put_prop v k x) k' = get_prop v k'"
  by (cases v) (simp_all add: get_prop_def map_of_upd_other)


lemma get_prop_nil: "isNil v \<Longrightarrow> get_prop v k = JUndefined"
  by (cases v) (simp_all add: get_prop_def)



lemma publish_validated:
  assumes "validated ev req m"
  shows "publish ev req =
    (case after_change ev (package req) m (dispatch_answer ev req m) (dispatch_message req) of
      (cs, out) \<Rightarrow> (dispatch_call req m # cs, out))"
  using assms
  by (auto simp: publish_def validated_def star_request_def object_keys_def Let_def
      dispatch_answer_def dispatch_message_def dispatch_call_def)

lemma after_change_attach:
  assumes "get_prop m ''_attachments'' = JObj [(f, payload)]"
    and "get_prop m ''versions'' = JObj [(v, r)]"
    and "\<forall>e. err = Some e \<longrightarrow> status e = Some 409"
  shows "after_change ev name m err msg = attach ev name m msg"
proof -
  have "\<not> isNil m"
    using assms(1) get_prop_nil [of m "''_attachments''"] by auto
  then show ?thesis
    using assms by (auto simp: after_change_def object_keys_def split: option.splits)
qed

lemma attach_written:
  assumes "get_prop m ''_attachments'' = JObj [(f, payload)]"
    and "\<not> isNil payload"
    and "new_Buffer ev (get_prop payload ''data'') = Some buf"
  shows "attach ev name m msg =
    (case addTarball (backend ev) name (basename f) buf of
      Some e \<Rightarrow> ([AddTarball name (basename f), StreamEnd buf, StreamDone], Next_error e)
    | None \<Rightarrow>
        (case after_tarball ev name m msg of
          (ds, out) \<Rightarrow> ([AddTarball name (basename f), StreamEnd buf, StreamDone] @ ds, out)))"
  using assms
  by (simp add: attach_def create_tarball_def get_prop_def split: option.splits)

lemma version_key_one:
  "get_prop m ''versions'' = JObj [(v, r)] \<Longrightarrow> version_key m = v"
  by (simp add: version_key_def)


lemma tags_kept: "get_prop (manifest_with_readme m s) DIST_TAGS = get_prop m DIST_TAGS"
  by (simp add: manifest_with_readme_def DIST_TAGS_def get_prop_put_other)



lemma after_tarball_steps:
  assumes "get_prop m ''versions'' = JObj [(v, r)]" and "can_assign r"
    and "readme_of m = Some s"
  shows "after_tarball ev name m msg =
    (case addVersion (backend ev) name v (version_with_readme m s) JNull of
      Some e \<Rightarrow> ([AddVersion name v (version_with_readme m s) JNull], Next_error e)
    | None \<Rightarrow>
        (case mergeTags (backend ev) name (get_prop m DIST_TAGS) of
          Some e \<Rightarrow>
            ([AddVersion name v (version_with_readme m s) JNull,
              MergeTags name (get_prop m DIST_TAGS)], Next_error e)
        | None \<Rightarrow>
            ([AddVersion name v (version_with_readme m s) JNull,
              MergeTags name (get_prop m DIST_TAGS),
              Notify (manifest_with_readme m s)], Reply 201 (ok_success msg))))"
proof -
  have "get_prop (get_prop m ''versions'') v = r"
    using assms(1) by (simp add: get_prop_def)
  then show ?thesis
    using assms
    by (simp add: after_tarball_def version_key_one create_version_def add_tags_def
        tags_kept split: option.splits)
qed

lemma after_tarball_throws:
  assumes "readme_of m = None"
  shows "after_tarball ev name m msg = ([], TypeError_thrown)"
  using assms by (simp add: after_tarball_def Let_def)

lemma attach_steps:
  assumes "get_prop m ''_attachments'' = JObj [(f, payload)]"
    and "\<not> isNil payload"
    and "new_Buffer ev (get_prop payload ''data'') = Some buf"
    and "get_prop m ''versions'' = JObj [(v, JObj fs)]"
    and "readme_of m = Some s"
  shows "attach ev name m msg =
    (case addTarball (backend ev) name (basename f) buf of
      Some e \<Rightarrow> ([AddTarball name (basename f), StreamEnd buf, StreamDone], Next_error e)
    | None \<Rightarrow>
        (case addVersion (backend ev) name v (version_with_readme m s) JNull of
          Some e \<Rightarrow>
            ([AddTarball name (basename f), StreamEnd buf, StreamDone,
              AddVersion name v (version_with_readme m s) JNull], Next_error e)
        | None \<Rightarrow>
            (case mergeTags (backend ev) name (get_prop m DIST_TAGS) of
              Some e \<Rightarrow>
                ([AddTarball name (basename f), StreamEnd buf, StreamDone,
                  AddVersion name v (version_with_readme m s) JNull,
                  MergeTags name (get_prop m DIST_TAGS)], Next_error e)
            | None \<Rightarrow>
                ([AddTarball name (basename f), StreamEnd buf, StreamDone,
                  AddVersion name v (version_with_readme m s) JNull,
                  MergeTags name (get_prop m DIST_TAGS),
                  Notify (manifest_with_readme m s)], Reply 201 (ok_success msg)))))"
  using assms
  by (simp add: attach_written [where payload = payload and f = f]
      after_tarball_steps [where r = "JObj fs" and v = v and s = s] split: option.splits)

text \<open>
  The TypeError of line 83: when \<^verbatim>\<open>String(metadata.readme)\<close> throws, the tarball is
  written and nothing follows it, no version commit, no tag merge and no response.
\<close>

lemma attach_readme_throws:
  assumes "get_prop m ''_attachments'' = JObj [(f, payload)]"
    and "\<not> isNil payload"
    and "new_Buffer ev (get_prop payload ''data'') = Some buf"
    and "addTarball (backend ev) name (basename f) buf = None"
    and "readme_of m = None"
  shows "attach ev name m msg =
    ([AddTarball name (basename f), StreamEnd buf, StreamDone], TypeError_thrown)"
  using assms
  by (simp add: attach_written [where payload = payload and f = f] after_tarball_throws)

lemma readme_with_toString_throws:
  "publish (sample_env accepting)
     (put_request (put_prop (manifest (JObj [(''pkg-1.0.0.tgz'', tarball)])) ''readme''
        (JObj [(''toString'', JNum ''1'')]))) =
   ([AddPackage ''pkg'' (put_prop (manifest (JObj [(''pkg-1.0.0.tgz'', tarball)])) ''readme''
        (JObj [(''toString'', JNum ''1'')])),
     AddTarball ''pkg'' ''pkg-1.0.0.tgz'', StreamEnd [0, 1, 2], StreamDone],
    TypeError_thrown)"
  by (simp add: Let_def publish_def after_change_def object_keys_def attach_def
      create_tarball_def after_tarball_def version_key_def readme_of_def basename_def
      sample_Buffer_def accepting_def tarball_def
      validated_def star_request_def put_request_def manifest_def sample_env_def
      validate_manifest_def mapping_or_empty_def get_prop_def DIST_TAGS_def)



lemma after_change_unsupported:
  assumes "\<not> isNil (get_prop m ''_attachments'')"
    and "\<not> one_entry (get_prop m ''_attachments'')
      \<or> (get_prop m ''versions'' \<noteq> JNull \<and> \<not> one_entry (get_prop m ''versions''))"
  shows "after_change ev name m err msg = ([], Next_error (get400 ''unsupported registry call''))"
proof -
  have "\<not> isNil m"
    using assms(1) get_prop_nil [of m "''_attachments''"] by auto
  moreover have "get_prop m ''versions'' \<noteq> JNull \<Longrightarrow> js_typeof (get_prop m ''versions'') = ''object''
      \<Longrightarrow> \<not> isNil (get_prop m ''versions'')"
    by (cases "get_prop m ''versions''") simp_all
  ultimately show ?thesis
    using assms
    by (auto simp: after_change_def object_keys_def one_entry_def Let_def split: option.splits)
qed

section \<open>Properties of the upload reactions\<close>

lemma react_done: "Stream_done \<in> set (react c es) \<longleftrightarrow> Req_end \<in> set es"
proof (induction es arbitrary: c)
  case Nil
  show ?case by simp
next
  case (Cons e es)
  show ?case
    by (cases e) (auto simp: Cons.IH uploaded_def)
qed

lemma react_abort:
  "Stream_abort \<in> set (react c es) \<longleftrightarrow>
   \<not> c \<and> Req_close \<in> set (takeWhile (\<lambda>e. e \<noteq> Req_end) es)"
proof (induction es arbitrary: c)
  case Nil
  show ?case by simp
next
  case (Cons e es)
  show ?case
    by (cases e) (auto simp: Cons.IH uploaded_def)
qed

lemma uploaded_other [simp]:
  "uploaded \<noteq> Stream_done" "uploaded \<noteq> Stream_abort" "uploaded \<noteq> Report_error err"
  "Stream_done \<noteq> uploaded" "Stream_abort \<noteq> uploaded" "Report_error err \<noteq> uploaded"
  "Stream_open name filename \<noteq> uploaded" "Request_piped \<noteq> uploaded"
  by (simp_all add: uploaded_def)

lemma react_success:
  "filter (\<lambda>a. a = uploaded) (react c es) =
   map (\<lambda>e. uploaded) (filter (\<lambda>e. e = Stream_success) es)"
proof (induction es arbitrary: c)
  case Nil
  show ?case by simp
next
  case (Cons e es)
  show ?case
    by (cases e) (simp_all add: Cons.IH)
qed

lemma react_report:
  "Report_error err \<in> set (react c es) \<longleftrightarrow> Stream_error err \<in> set es"
proof (induction es arbitrary: c)
  case Nil
  show ?case by simp
next
  case (Cons e es)
  show ?case
    by (cases e) (auto simp: Cons.IH uploaded_def)
qed

lemma react_responses:
  "Respond n r \<in> set (react c es) \<Longrightarrow> Respond n r = uploaded \<and> Stream_success \<in> set es"
proof (induction es arbitrary: c)
  case Nil
  then show ?case by simp
next
  case (Cons e es)
  then show ?case
    by (cases e) (auto split: if_splits)
qed

section \<open>The publish sequence\<close>





text \<open>
  Claim C10. A publish request with no revision marker whose package creation fails
  with status 409, and whose attachment flow then completes successfully (the one
  payload is decoded, the readme of the manifest is absent or has a string and is stored
  in the one version record, and the tarball write, the version commit and the tag merge
  succeed), is answered 201 with the message \<^verbatim>\<open>created new package\<close>, the body
  \<^verbatim>\<open>{ok: 'created new package', success: true}\<close>, although \<^verbatim>\<open>addPackage\<close> created
  nothing.
\<close>

theorem conflict_still_created:
  assumes "validated ev req m"
    and "\<not> supplied (rev_marker req)"
    and "get_prop m ''_attachments'' = JObj [(f, payload)]"
    and "\<not> isNil payload"
    and "new_Buffer ev (get_prop payload ''data'') = Some buf"
    and "get_prop m ''versions'' = JObj [(v, JObj fs)]"
    and "readme_of m = Some s"
    and "addPackage (backend ev) (package req) m = Some e"
    and "status e = Some 409"
    and "addTarball (backend ev) (package req) (basename f) buf = None"
    and "addVersion (backend ev) (package req) v (version_with_readme m s) JNull = None"
    and "mergeTags (backend ev) (package req) (get_prop m DIST_TAGS) = None"
  shows "snd (publish ev req) = Reply 201 (ok_success ''created new package'')
    \<and> ok_success ''created new package'' =
        JObj [(''ok'', JStr ''created new package''), (''success'', JBool True)]
    \<and> fst (publish ev req) =
        [AddPackage (package req) m,
         AddTarball (package req) (basename f), StreamEnd buf, StreamDone,
         AddVersion (package req) v (version_with_readme m s) JNull,
         MergeTags (package req) (get_prop m DIST_TAGS),
         Notify (manifest_with_readme m s)]"
proof -
  have disp: "dispatch_answer ev req m = Some e"
    "dispatch_call req m = AddPackage (package req) m"
    "dispatch_message req = ''created new package''"
    using assms(2,8) by (simp_all add: dispatch_answer_def dispatch_call_def dispatch_message_def)
  have "after_change ev (package req) m (Some e) ''created new package'' =
      attach ev (package req) m ''created new package''"
    using assms(3,6,9) by (simp add: after_change_attach)
  then show ?thesis
    using assms(1,10-12) disp
    by (simp add: publish_validated attach_steps [OF assms(3-7)] ok_success_def)
qed

theorem conflict_still_created_witness:
  "addPackage (backend (sample_env (refusing conflict))) ''pkg'' (manifest (JObj [(''pkg-1.0.0.tgz'', tarball)])) = Some conflict
   \<and> status conflict = Some 409
   \<and> readme_of (manifest (JObj [(''pkg-1.0.0.tgz'', tarball)])) = Some ''hello''
   \<and> snd (publish (sample_env (refusing conflict)) (put_request (manifest (JObj [(''pkg-1.0.0.tgz'', tarball)])))) =
      Reply 201 (JObj [(''ok'', JStr ''created new package''), (''success'', JBool True)])
   \<and> hd (fst (publish (sample_env (refusing conflict)) (put_request (manifest (JObj [(''pkg-1.0.0.tgz'', tarball)]))))) =
      AddPackage ''pkg'' (manifest (JObj [(''pkg-1.0.0.tgz'', tarball)]))"
proof -
  let ?m = "(manifest (JObj [(''pkg-1.0.0.tgz'', tarball)]))"
  let ?ev = "sample_env (refusing conflict)"
  have h1: "validated ?ev (put_request ?m) ?m"
    by (simp add: validated_def star_request_def put_request_def manifest_def sample_env_def
        validate_manifest_def mapping_or_empty_def get_prop_def DIST_TAGS_def)
  have h2: "\<not> supplied (rev_marker (put_request ?m))"
    by (simp add: put_request_def)
  have h3: "get_prop ?m ''_attachments'' = JObj [(''pkg-1.0.0.tgz'', tarball)]"
    by (simp add: manifest_def get_prop_def)
  have h4: "\<not> isNil tarball"
    by (simp add: tarball_def)
  have h5: "new_Buffer ?ev (get_prop tarball ''data'') = Some [0, 1, 2]"
    by (simp add: sample_env_def sample_Buffer_def tarball_def get_prop_def)
  have h6: "get_prop ?m ''versions'' = JObj [(''1.0.0'', JObj [(''name'', JStr ''pkg'')])]"
    by (simp add: manifest_def get_prop_def)
  have h7: "readme_of ?m = Some ''hello''"
    by (simp add: readme_of_def manifest_def get_prop_def)
  have h8: "addPackage (backend ?ev) (package (put_request ?m)) ?m = Some conflict"
    by (simp add: sample_env_def refusing_def)
  have h9: "status conflict = Some 409"
    by (simp add: conflict_def)
  have h10: "addTarball (backend ?ev) (package (put_request ?m)) (basename ''pkg-1.0.0.tgz'')
      [0, 1, 2] = None"
    by (simp add: sample_env_def refusing_def accepting_def)
  have h11: "addVersion (backend ?ev) (package (put_request ?m)) ''1.0.0''
      (version_with_readme ?m ''hello'') JNull = None"
    by (simp add: sample_env_def refusing_def accepting_def)
  have h12: "mergeTags (backend ?ev) (package (put_request ?m)) (get_prop ?m DIST_TAGS) = None"
    by (simp add: sample_env_def refusing_def accepting_def)
  have p: "package (put_request ?m) = ''pkg''"
    by (simp add: put_request_def)
  from conflict_still_created [OF h1 h2 h3 h4 h5 h6 h7 h8 h9 h10 h11 h12] h7 h8 h9
  show ?thesis
    by (simp add: p)
qed

section \<open>Requests without attachments, and removals\<close>



text \<open>
  Claim C9. The removal of a package and the removal of one tarball each make one
  backend call. When the backend succeeds the answer is 201 with the fixed message,
  \<^verbatim>\<open>package removed\<close> and \<^verbatim>\<open>tarball removed\<close>; when the backend answers an error,
  that error is passed on unchanged.
\<close>

theorem removal_outcomes:
  "(remove_package st name = None \<longrightarrow>
      delete_package st name =
        ([RemovePackage name], Reply 201 (JObj [(''ok'', JStr ''package removed'')])))
   \<and> (remove_package st name = Some e \<longrightarrow>
      delete_package st name = ([RemovePackage name], Next_error e))
   \<and> (remove_tarball st name filename revn = None \<longrightarrow>
      delete_tarball st name filename revn =
        ([RemoveTarball name filename revn],
         Reply 201 (JObj [(''ok'', JStr ''tarball removed'')])))
   \<and> (remove_tarball st name filename revn = Some e \<longrightarrow>
      delete_tarball st name filename revn =
        ([RemoveTarball name filename revn], Next_error e))"
  by (simp add: delete_package_def delete_tarball_def)

theorem removal_outcomes_witness:
  "remove_package accepting ''pkg'' = None
   \<and> delete_package accepting ''pkg'' =
      ([RemovePackage ''pkg''], Reply 201 (JObj [(''ok'', JStr ''package removed'')]))
   \<and> remove_tarball accepting ''pkg'' ''pkg-1.0.0.tgz'' ''4-abc'' = None
   \<and> delete_tarball accepting ''pkg'' ''pkg-1.0.0.tgz'' ''4-abc'' =
      ([RemoveTarball ''pkg'' ''pkg-1.0.0.tgz'' ''4-abc''],
       Reply 201 (JObj [(''ok'', JStr ''tarball removed'')]))
   \<and> remove_package (refusing internal) ''pkg'' = Some internal
   \<and> delete_package (refusing internal) ''pkg'' = ([RemovePackage ''pkg''], Next_error internal)
   \<and> remove_tarball (refusing internal) ''pkg'' ''pkg-1.0.0.tgz'' ''4-abc'' = Some internal
   \<and> delete_tarball (refusing internal) ''pkg'' ''pkg-1.0.0.tgz'' ''4-abc'' =
      ([RemoveTarball ''pkg'' ''pkg-1.0.0.tgz'' ''4-abc''], Next_error internal)"
proof -
  have a: "remove_package accepting ''pkg'' = None"
    "remove_tarball accepting ''pkg'' ''pkg-1.0.0.tgz'' ''4-abc'' = None"
    by (simp_all add: accepting_def)
  have b: "remove_package (refusing internal) ''pkg'' = Some internal"
    "remove_tarball (refusing internal) ''pkg'' ''pkg-1.0.0.tgz'' ''4-abc'' = Some internal"
    by (simp_all add: refusing_def)
  from removal_outcomes [of accepting "''pkg''" internal "''pkg-1.0.0.tgz''" "''4-abc''"]
    removal_outcomes [of "refusing internal" "''pkg''" internal "''pkg-1.0.0.tgz''" "''4-abc''"]
    a b
  show ?thesis
    by simp
qed

section \<open>Errors of the publish handler\<close>




text \<open>
  Claim C4, as the spec states it, fails: line 62 asks for the type \<^verbatim>\<open>'object'\<close>, which
  an array has too. Attachments that are a list of one payload, not a mapping, pass the
  test, and the publish goes through with the tarball written under the name \<^verbatim>\<open>0\<close>.
\<close>

theorem array_attachment_published:
  "\<not> isNil (get_prop (manifest (JArr [(''0'', tarball)])) ''_attachments'')
   \<and> \<not> isObject (get_prop (manifest (JArr [(''0'', tarball)])) ''_attachments'')
   \<and> publish (sample_env accepting) (put_request (manifest (JArr [(''0'', tarball)]))) =
      ([AddPackage ''pkg'' (manifest (JArr [(''0'', tarball)])),
        AddTarball ''pkg'' ''0'', StreamEnd [0, 1, 2], StreamDone,
        AddVersion ''pkg'' ''1.0.0''
          (JObj [(''name'', JStr ''pkg''), (''readme'', JStr ''hello'')]) JNull,
        MergeTags ''pkg'' (JObj [(''latest'', JStr ''1.0.0'')]),
        Notify (manifest_with_readme (manifest (JArr [(''0'', tarball)])) ''hello'')],
       Reply 201 (ok_success ''created new package''))"
  by (simp add: Let_def publish_def after_change_def object_keys_def attach_def create_tarball_def
      after_tarball_def create_version_def add_tags_def version_key_def
      version_with_readme_def readme_of_def manifest_with_readme_def basename_def
      sample_Buffer_def accepting_def tarball_def validated_def star_request_def put_request_def manifest_def sample_env_def
        validate_manifest_def mapping_or_empty_def get_prop_def DIST_TAGS_def)

text \<open>
  Claim C4, amended. A publish request whose manifest carries attachments (its
  \<^verbatim>\<open>_attachments\<close> is not \<^verbatim>\<open>null\<close> or \<^verbatim>\<open>undefined\<close>) is answered with the error
  \<^verbatim>\<open>unsupported registry call\<close> of status 400, whatever the dispatch answered, when
  the attachments are not a value of type \<^verbatim>\<open>'object'\<close> (a mapping or an array) with
  exactly one key, and when the versions are not \<^verbatim>\<open>null\<close> and are not such a value.
  The dispatch is the one backend call made.
\<close>

theorem unsupported_shape:
  assumes "validated ev req m"
    and "\<not> isNil (get_prop m ''_attachments'')"
    and "\<not> one_entry (get_prop m ''_attachments'')
      \<or> (get_prop m ''versions'' \<noteq> JNull \<and> \<not> one_entry (get_prop m ''versions''))"
  shows "publish ev req =
    ([dispatch_call req m], Next_error (get400 ''unsupported registry call''))
    \<and> status (get400 ''unsupported registry call'') = Some 400"
  using assms
  by (simp add: publish_validated after_change_unsupported get400_def)

theorem unsupported_shape_witness:
  "\<not> isNil (get_prop (manifest (JObj [(''a.tgz'', tarball), (''b.tgz'', tarball)])) ''_attachments'')
   \<and> \<not> one_entry (get_prop (manifest (JObj [(''a.tgz'', tarball), (''b.tgz'', tarball)])) ''_attachments'')
   \<and> publish (sample_env accepting) (put_request (manifest (JObj [(''a.tgz'', tarball), (''b.tgz'', tarball)]))) =
      ([AddPackage ''pkg'' (manifest (JObj [(''a.tgz'', tarball), (''b.tgz'', tarball)]))], Next_error \<lparr>status = Some 400, message = ''unsupported registry call''\<rparr>)"
proof -
  have h1: "validated (sample_env accepting) (put_request (manifest (JObj [(''a.tgz'', tarball), (''b.tgz'', tarball)]))) (manifest (JObj [(''a.tgz'', tarball), (''b.tgz'', tarball)]))"
    by (simp add: tarball_def validated_def star_request_def put_request_def manifest_def sample_env_def
        validate_manifest_def mapping_or_empty_def get_prop_def DIST_TAGS_def)
  have h2: "\<not> isNil (get_prop (manifest (JObj [(''a.tgz'', tarball), (''b.tgz'', tarball)])) ''_attachments'')"
    by (simp add: manifest_def get_prop_def)
  have h3: "\<not> one_entry (get_prop (manifest (JObj [(''a.tgz'', tarball), (''b.tgz'', tarball)])) ''_attachments'')"
    by (simp add: one_entry_def manifest_def get_prop_def)
  have c: "dispatch_call (put_request (manifest (JObj [(''a.tgz'', tarball), (''b.tgz'', tarball)]))) (manifest (JObj [(''a.tgz'', tarball), (''b.tgz'', tarball)])) = AddPackage ''pkg'' (manifest (JObj [(''a.tgz'', tarball), (''b.tgz'', tarball)]))"
    by (simp add: dispatch_call_def put_request_def)
  from unsupported_shape [OF h1 h2 disjI1 [OF h3]] h2 h3
  show ?thesis
    by (simp add: c get400_def)
qed

text \<open>
  Claim C5, as the spec states it, fails: line 101 also asks that \<^verbatim>\<open>users\<close> be an
  object. A body whose one key is \<^verbatim>\<open>users\<close>, with a string under it, is no star
  request for the handler: it goes on to the validation, which rejects it with 422.
\<close>

theorem users_string_validated:
  "map fst (props (JObj [(''users'', JStr ''alice'')])) = [''users'']
   \<and> publish (sample_env accepting) (put_request (JObj [(''users'', JStr ''alice'')])) =
      ([], Next_error (get422 ''bad incoming package data''))
   \<and> get422 ''bad incoming package data'' \<noteq> get404 ''npm star|unstar calls are not implemented''"
  by (simp add: Let_def publish_def object_keys_def get422_def get404_def validated_def star_request_def put_request_def manifest_def sample_env_def
        validate_manifest_def mapping_or_empty_def get_prop_def DIST_TAGS_def)

text \<open>
  Claim C5, amended. A publish request whose body is a mapping with exactly one key,
  \<^verbatim>\<open>users\<close>, holding an object, is answered with the error of status 404,
  \<^verbatim>\<open>npm star|unstar calls are not implemented\<close>, whatever the package name and the
  other parameters, the validation and the backend: no call is made.
\<close>

theorem star_rejected:
  assumes "body req = JObj [(''users'', JObj us)]"
  shows "publish ev req = ([], Next_error (get404 ''npm star|unstar calls are not implemented''))
    \<and> status (get404 ''npm star|unstar calls are not implemented'') = Some 404"
  using assms
  by (simp add: publish_def object_keys_def get_prop_def get404_def)

theorem star_rejected_witness:
  "body (put_request (JObj [(''users'', JObj [(''alice'', JBool True)])])) =
      JObj [(''users'', JObj [(''alice'', JBool True)])]
   \<and> publish (sample_env accepting)
        (put_request (JObj [(''users'', JObj [(''alice'', JBool True)])])) =
      ([], Next_error \<lparr>status = Some 404, message = ''npm star|unstar calls are not implemented''\<rparr>)"
proof -
  have h: "body (put_request (JObj [(''users'', JObj [(''alice'', JBool True)])])) =
      JObj [(''users'', JObj [(''alice'', JBool True)])]"
    by (simp add: put_request_def)
  from star_rejected [OF h, of "sample_env accepting"] h
  show ?thesis
    by (simp add: get404_def)
qed

text \<open>
  Claim C7, as the spec states it, fails: the star test of line 101 comes before the
  validation. The body of a star request is no manifest of the package, and the
  validation would reject it, yet the answer is 404, not 422.
\<close>

theorem star_not_validated:
  "validate_metadata (sample_env accepting) (JObj [(''users'', JObj [(''bob'', JBool True)])])
      ''pkg'' = None
   \<and> publish (sample_env accepting)
        (put_request (JObj [(''users'', JObj [(''bob'', JBool True)])])) =
      ([], Next_error (get404 ''npm star|unstar calls are not implemented''))
   \<and> get404 ''npm star|unstar calls are not implemented'' \<noteq> get422 ''bad incoming package data''"
  by (simp add: Let_def publish_def object_keys_def get422_def get404_def validated_def star_request_def put_request_def manifest_def sample_env_def
        validate_manifest_def mapping_or_empty_def get_prop_def DIST_TAGS_def)

text \<open>
  Claim C7, amended. A publish request whose body is not \<^verbatim>\<open>null\<close>, is no star request
  and fails the validation against the declared package name is answered with the error
  of status 422, \<^verbatim>\<open>bad incoming package data\<close>, and no backend call is made: no package
  creation or change, no tarball write, no version commit, no tag merge.
\<close>

theorem invalid_manifest:
  assumes "\<not> isNil (body req)"
    and "\<not> star_request (body req)"
    and "validate_metadata ev (body req) (package req) = None"
  shows "publish ev req = ([], Next_error (get422 ''bad incoming package data''))
    \<and> status (get422 ''bad incoming package data'') = Some 422"
  using assms
  by (auto simp: publish_def object_keys_def star_request_def get422_def)

theorem invalid_manifest_witness:
  "\<not> isNil (JObj [(''name'', JStr ''other'')])
   \<and> \<not> star_request (JObj [(''name'', JStr ''other'')])
   \<and> validate_metadata (sample_env accepting) (JObj [(''name'', JStr ''other'')]) ''pkg'' = None
   \<and> publish (sample_env accepting) (put_request (JObj [(''name'', JStr ''other'')])) =
      ([], Next_error \<lparr>status = Some 422, message = ''bad incoming package data''\<rparr>)"
proof -
  let ?req = "put_request (JObj [(''name'', JStr ''other'')])"
  have h1: "\<not> isNil (body ?req)"
    by (simp add: put_request_def)
  have h2: "\<not> star_request (body ?req)"
    by (simp add: put_request_def star_request_def get_prop_def)
  have h3: "validate_metadata (sample_env accepting) (body ?req) (package ?req) = None"
    by (simp add: put_request_def sample_env_def validate_manifest_def get_prop_def)
  have b: "body ?req = JObj [(''name'', JStr ''other'')]" "package ?req = ''pkg''"
    by (simp_all add: put_request_def)
  from invalid_manifest [OF h1 h2 h3] h1 h2 h3
  show ?thesis
    by (simp add: b get422_def)
qed

section \<open>The upload of a tarball\<close>

text \<open>
  Claim C6, as the spec states it, fails: the end of the request finalizes the stream,
  but the success response waits for the \<^verbatim>\<open>'success'\<close> event of the stream. When the
  stream answers the finalization with \<^verbatim>\<open>'error'\<close>, the error is reported and no
  success response is made.
\<close>

theorem upload_end_then_error:
  "Req_end \<in> set [Req_end, Stream_error internal]
   \<and> upload ''pkg'' ''pkg-1.0.0.tgz'' [Req_end, Stream_error internal] =
      [Stream_open ''pkg'' ''pkg-1.0.0.tgz'', Request_piped, Stream_done, Report_error internal]
   \<and> uploaded \<notin> set (upload ''pkg'' ''pkg-1.0.0.tgz'' [Req_end, Stream_error internal])"
  by (simp add: upload_def uploaded_def)

text \<open>
  Claim C6, amended. In a direct tarball upload the write stream is finalized by
  \<^verbatim>\<open>done()\<close> exactly when the request emits \<^verbatim>\<open>'end'\<close>, and aborted by \<^verbatim>\<open>abort()\<close>
  exactly when the request emits \<^verbatim>\<open>'close'\<close> before any \<^verbatim>\<open>'end'\<close>. The success
  response, 201 with the message \<^verbatim>\<open>tarball uploaded successfully\<close>, is made once for
  each \<^verbatim>\<open>'success'\<close> event of the write stream; there is no other response, so none
  without such an event. An error is reported exactly when the write stream emits it.
\<close>

theorem upload_reactions:
  "(Stream_done \<in> set (upload name filename es) \<longleftrightarrow> Req_end \<in> set es)
   \<and> (Stream_abort \<in> set (upload name filename es) \<longleftrightarrow>
        Req_close \<in> set (takeWhile (\<lambda>e. e \<noteq> Req_end) es))
   \<and> filter (\<lambda>a. a = uploaded) (upload name filename es) =
       map (\<lambda>e. uploaded) (filter (\<lambda>e. e = Stream_success) es)
   \<and> (Respond n r \<in> set (upload name filename es) \<longrightarrow>
        Respond n r = uploaded \<and> Stream_success \<in> set es)
   \<and> (Report_error err \<in> set (upload name filename es) \<longleftrightarrow> Stream_error err \<in> set es)"
  using react_responses [of n r False es]
  by (auto simp: upload_def react_done react_abort react_success react_report)

theorem upload_reactions_witness:
  "Req_end \<in> set [Req_end, Stream_success]
   \<and> Stream_done \<in> set (upload ''pkg'' ''pkg-1.0.0.tgz'' [Req_end, Stream_success])
   \<and> filter (\<lambda>a. a = uploaded) (upload ''pkg'' ''pkg-1.0.0.tgz'' [Req_end, Stream_success]) =
      [uploaded]
   \<and> Req_close \<in> set (takeWhile (\<lambda>e. e \<noteq> Req_end) [Req_close, Req_end])
   \<and> Stream_abort \<in> set (upload ''pkg'' ''pkg-1.0.0.tgz'' [Req_close, Req_end])
   \<and> filter (\<lambda>a. a = uploaded) (upload ''pkg'' ''pkg-1.0.0.tgz'' [Req_close, Req_end]) = []
   \<and> Respond 201 (JObj [(''ok'', JStr ''tarball uploaded successfully'')])
        \<in> set (upload ''pkg'' ''pkg-1.0.0.tgz'' [Req_end, Stream_success])"
proof -
  have u: "Respond 201 (JObj [(''ok'', JStr ''tarball uploaded successfully'')])
      \<in> set (upload ''pkg'' ''pkg-1.0.0.tgz'' [Req_end, Stream_success])"
    by (simp add: upload_def uploaded_def)
  from upload_reactions [of "''pkg''" "''pkg-1.0.0.tgz''" "[Req_end, Stream_success]" 201
      "JObj [(''ok'', JStr ''tarball uploaded successfully'')]"]
    upload_reactions [of "''pkg''" "''pkg-1.0.0.tgz''" "[Req_close, Req_end]" 201
      "JObj [(''ok'', JStr ''tarball uploaded successfully'')]"] u
  show ?thesis
    by simp
qed

end
